theory Spec2Isabelle
  imports Main "HOL-Library.Sublist"
begin

section \<open>Strings, errors and platform values\<close>

text \<open>
  A JavaScript string is a sequence of UTF-16 code units, and \<open>.length\<close> counts code
  units. Strings of the program are therefore lists of code units (natural numbers);
  \<open>utf16\<close> writes an ASCII literal as such a list.
\<close>

type_synonym jsstring = "nat list"

definition utf16 :: "string \<Rightarrow> jsstring" where
  "utf16 s = map of_char s"

text \<open>
  A thrown value is the left summand of a result. \<open>Error\<close> carries the message of a
  \<open>new Error(msg)\<close>; the two errors the upstream client builds from a number are kept
  structured: \<open>ApiError status\<close> is \<open>Error('Sales Cloud API error: <status>')\<close> and
  \<open>RequestTimeout ms\<close> is \<open>Error('Sales Cloud request timeout after <ms>ms')\<close>. The
  remaining constructors are the classes the client's \<open>catch\<close> block tells apart: a
  \<open>TypeError\<close>, the \<open>AbortError\<close> of an aborted request, and any other thrown value.
\<close>

datatype js_error =
  Error jsstring
| ApiError nat
| RequestTimeout nat
| TypeError
| AbortError
| OtherError

section \<open>utils/security.ts: filter value sanitising\<close>

text \<open>
  The regular expressions of \<open>DANGEROUS_FILTER_PATTERNS\<close> are five literal patterns and
  one pattern with character classes. \<open>RegExp.prototype.test\<close> without the sticky flag
  looks for a match starting at any position of the input.
\<close>

datatype pattern = Literal jsstring | HexEscape

definition isDigit :: "nat \<Rightarrow> bool" where
  "isDigit c \<longleftrightarrow> 48 \<le> c \<and> c \<le> 57"

definition isLower :: "nat \<Rightarrow> bool" where
  "isLower c \<longleftrightarrow> 97 \<le> c \<and> c \<le> 122"

definition isUpper :: "nat \<Rightarrow> bool" where
  "isUpper c \<longleftrightarrow> 65 \<le> c \<and> c \<le> 90"

definition isHexDigit :: "nat \<Rightarrow> bool" where
  \<comment> \<open>\<open>[0-9a-f]\<close> under the \<open>i\<close> flag\<close>
  "isHexDigit c \<longleftrightarrow> isDigit c \<or> (97 \<le> c \<and> c \<le> 102) \<or> (65 \<le> c \<and> c \<le> 70)"

fun matchLiteralAt :: "jsstring \<Rightarrow> jsstring \<Rightarrow> bool" where
  "matchLiteralAt [] s = True"
| "matchLiteralAt (p # ps) [] = False"
| "matchLiteralAt (p # ps) (c # cs) = (p = c \<and> matchLiteralAt ps cs)"

fun matchHexEscapeAt :: "jsstring \<Rightarrow> bool" where
  \<comment> \<open>\<open>/\\x[0-9a-f]{2}/i\<close>: a backslash, \<open>x\<close> or \<open>X\<close>, two hexadecimal digits\<close>
  "matchHexEscapeAt (b # x # h1 # h2 # rest) =
     (b = 92 \<and> (x = 120 \<or> x = 88) \<and> isHexDigit h1 \<and> isHexDigit h2)"
| "matchHexEscapeAt s = False"

fun matchAt :: "pattern \<Rightarrow> jsstring \<Rightarrow> bool" where
  "matchAt (Literal p) s = matchLiteralAt p s"
| "matchAt HexEscape s = matchHexEscapeAt s"

fun regex_test :: "pattern \<Rightarrow> jsstring \<Rightarrow> bool" where
  "regex_test p [] = matchAt p []"
| "regex_test p (c # cs) = (matchAt p (c # cs) \<or> regex_test p cs)"

definition DANGEROUS_FILTER_PATTERNS :: "pattern list" where
  "DANGEROUS_FILTER_PATTERNS =
     [Literal (utf16 '';''),
      Literal (utf16 ''--''),
      Literal (utf16 ''/*''),
      Literal (utf16 ''*/''),
      Literal [0],
      HexEscape]"

fun noPatternMatches :: "pattern list \<Rightarrow> jsstring \<Rightarrow> bool" where
  \<comment> \<open>the \<open>for\<close> loop of \<open>isDangerousFreeString\<close>: false at the first pattern that matches\<close>
  "noPatternMatches [] v = True"
| "noPatternMatches (p # ps) v = (if regex_test p v then False else noPatternMatches ps v)"

definition isDangerousFreeString :: "jsstring \<Rightarrow> bool" where
  "isDangerousFreeString v = noPatternMatches DANGEROUS_FILTER_PATTERNS v"

definition isFilterContentSafe :: "jsstring \<Rightarrow> bool" where
  "isFilterContentSafe filter_expr = isDangerousFreeString filter_expr"

record sanitize_result =
  valid :: bool
  sanitized :: jsstring
  error :: "jsstring option"

fun escapeQuotes :: "jsstring \<Rightarrow> jsstring" where
  \<comment> \<open>\<open>value.replace(/'/g, "''")\<close>\<close>
  "escapeQuotes [] = []"
| "escapeQuotes (c # cs) = (if c = 39 then 39 # 39 # escapeQuotes cs else c # escapeQuotes cs)"

definition sanitizeFilterValue :: "jsstring \<Rightarrow> sanitize_result" where
  "sanitizeFilterValue v =
     (if \<not> isDangerousFreeString v then
        \<lparr>valid = False, sanitized = [], error = Some (utf16 ''Invalid characters in filter value'')\<rparr>
      else if length v > 100 then
        \<lparr>valid = False, sanitized = [], error = Some (utf16 ''Filter value too long'')\<rparr>
      else
        \<lparr>valid = True, sanitized = escapeQuotes v, error = None\<rparr>)"

datatype keyset_operator = Gt | Lt

fun operator_text :: "keyset_operator \<Rightarrow> jsstring" where
  "operator_text Gt = utf16 ''gt''"
| "operator_text Lt = utf16 ''lt''"

definition isFieldNameStart :: "nat \<Rightarrow> bool" where
  \<comment> \<open>\<open>[a-zA-Z_]\<close>\<close>
  "isFieldNameStart c \<longleftrightarrow> isLower c \<or> isUpper c \<or> c = 95"

definition isFieldNamePart :: "nat \<Rightarrow> bool" where
  \<comment> \<open>\<open>[a-zA-Z0-9_]\<close>\<close>
  "isFieldNamePart c \<longleftrightarrow> isLower c \<or> isUpper c \<or> isDigit c \<or> c = 95"

fun matchFieldNameRest :: "jsstring \<Rightarrow> bool" where
  \<comment> \<open>\<open>[a-zA-Z0-9_]*$\<close>: the star consumes name characters, then the input must end\<close>
  "matchFieldNameRest [] = True"
| "matchFieldNameRest (c # cs) = (isFieldNamePart c \<and> matchFieldNameRest cs)"

fun fieldNamePattern_test :: "jsstring \<Rightarrow> bool" where
  \<comment> \<open>\<open>/^[a-zA-Z_][a-zA-Z0-9_]*$/.test(fieldName)\<close>\<close>
  "fieldNamePattern_test [] = False"
| "fieldNamePattern_test (c # cs) = (isFieldNameStart c \<and> matchFieldNameRest cs)"

definition buildKeysetCondition ::
  "jsstring \<Rightarrow> keyset_operator \<Rightarrow> jsstring \<Rightarrow> js_error + jsstring" where
  "buildKeysetCondition fieldName operator v =
     (if \<not> fieldNamePattern_test fieldName then
        Inl (Error (utf16 ''Invalid field name for keyset pagination''))
      else
        let r = sanitizeFilterValue v in
        if \<not> valid r then
          Inl (Error (case error r of
                        None \<Rightarrow> utf16 ''Invalid value for keyset pagination''
                      | Some e \<Rightarrow> if e = [] then utf16 ''Invalid value for keyset pagination'' else e))
        else
          Inr (fieldName @ utf16 '' '' @ operator_text operator @ utf16 '' '' @ [39] @ sanitized r @ [39]))"

section \<open>constants.ts\<close>

definition SC_MAX_PAGE_SIZE :: int where "SC_MAX_PAGE_SIZE = 999"


definition DEFAULT_PAGE_SIZE :: int where "DEFAULT_PAGE_SIZE = SC_MAX_PAGE_SIZE"

definition MAX_PAGE_SIZE :: int where "MAX_PAGE_SIZE = SC_MAX_PAGE_SIZE"

definition SC_MAX_RETRIES :: nat where "SC_MAX_RETRIES = 2"

definition SC_RETRY_BASE_DELAY_MS :: nat where "SC_RETRY_BASE_DELAY_MS = 500"

section \<open>utils/security.ts: query limits and filter combination\<close>

text \<open>
  A raw query object has type \<open>Record<string, string | string[] | undefined>\<close>: a key is
  absent (or \<open>undefined\<close>), a single string, or an array of strings.
\<close>

datatype qvalue = Str jsstring | Arr "jsstring list"

type_synonym query = "jsstring \<rightharpoonup> qvalue"

definition getQueryParam :: "query \<Rightarrow> jsstring \<Rightarrow> jsstring option" where
  \<comment> \<open>\<open>value[0]\<close> of an empty array is \<open>undefined\<close>\<close>
  "getQueryParam q key =
     (case q key of
        None \<Rightarrow> None
      | Some (Str s) \<Rightarrow> Some s
      | Some (Arr []) \<Rightarrow> None
      | Some (Arr (s # rest)) \<Rightarrow> Some s)"

definition MAX_FILTER_LENGTH :: nat where "MAX_FILTER_LENGTH = 4096"
definition MAX_SELECT_LENGTH :: nat where "MAX_SELECT_LENGTH = 2048"
definition MAX_ORDERBY_LENGTH :: nat where "MAX_ORDERBY_LENGTH = 512"
definition MAX_SKIPTOKEN_LENGTH :: nat where "MAX_SKIPTOKEN_LENGTH = 1024"

definition tooLong :: "jsstring option \<Rightarrow> nat \<Rightarrow> bool" where
  \<comment> \<open>\<open>p && p.length > limit\<close>: an absent or empty parameter is falsy\<close>
  "tooLong p limit = (case p of None \<Rightarrow> False | Some s \<Rightarrow> s \<noteq> [] \<and> length s > limit)"

definition validateQueryLimits :: "query \<Rightarrow> jsstring option" where
  "validateQueryLimits q =
     (if tooLong (getQueryParam q (utf16 ''$filter'')) MAX_FILTER_LENGTH then
        Some (utf16 ''$filter exceeds maximum length of 4096 characters'')
      else if tooLong (getQueryParam q (utf16 ''$select'')) MAX_SELECT_LENGTH then
        Some (utf16 ''$select exceeds maximum length of 2048 characters'')
      else if tooLong (getQueryParam q (utf16 ''$orderby'')) MAX_ORDERBY_LENGTH then
        Some (utf16 ''$orderby exceeds maximum length of 512 characters'')
      else if tooLong (getQueryParam q (utf16 ''$skiptoken'')) MAX_SKIPTOKEN_LENGTH then
        Some (utf16 ''$skiptoken exceeds maximum length of 1024 characters'')
      else None)"

definition isWhiteSpace :: "nat \<Rightarrow> bool" where
  \<comment> \<open>ECMAScript WhiteSpace and LineTerminator code units, as stripped by \<open>trim\<close> and
      skipped by \<open>parseInt\<close>\<close>
  "isWhiteSpace c \<longleftrightarrow>
     c \<in> {9, 10, 11, 12, 13, 32, 160, 5760, 8232, 8233, 8239, 8287, 12288, 65279}
     \<or> (8192 \<le> c \<and> c \<le> 8202)"

definition trim :: "jsstring \<Rightarrow> jsstring" where
  "trim s = rev (dropWhile isWhiteSpace (rev (dropWhile isWhiteSpace s)))"

fun splitOn :: "nat \<Rightarrow> jsstring \<Rightarrow> jsstring list" where
  \<comment> \<open>\<open>s.split(sep)\<close> for a separator of one code unit\<close>
  "splitOn sep [] = [[]]"
| "splitOn sep (c # cs) =
     (if c = sep then [] # splitOn sep cs
      else (case splitOn sep cs of
              [] \<Rightarrow> [[c]]
            | piece # pieces \<Rightarrow> (c # piece) # pieces))"

fun joinWith :: "jsstring \<Rightarrow> jsstring list \<Rightarrow> jsstring" where
  \<comment> \<open>\<open>pieces.join(sep)\<close>\<close>
  "joinWith sep [] = []"
| "joinWith sep [x] = x"
| "joinWith sep (x # y # ys) = x @ sep @ joinWith sep (y # ys)"

definition combineFilters :: "jsstring list \<Rightarrow> jsstring" where
  "combineFilters filters =
     (let nonEmpty = filter (\<lambda>f. f \<noteq> [] \<and> trim f \<noteq> []) filters in
      if length nonEmpty = 0 then []
      else if length nonEmpty = 1 then hd nonEmpty
      else joinWith (utf16 '' and '') (map (\<lambda>f. utf16 ''('' @ f @ utf16 '')'') nonEmpty))"

section \<open>odata/parser.ts\<close>

text \<open>
  \<open>ODataQueryOptions\<close> (salescloud/types.ts): every field is optional. The fields
  \<open>filter\<close> and \<open>top\<close> are \<open>filter_opt\<close> and \<open>top_opt\<close> here, since HOL has constants of
  those names.
\<close>

record ODataQueryOptions =
  select :: "jsstring list option"
  filter_opt :: "jsstring option"
  top_opt :: "int option"
  skip :: "int option"
  orderby :: "jsstring option"
  count :: "bool option"
  expand :: "jsstring list option"
  skiptoken :: "jsstring option"

text \<open>
  \<open>parseInt(s, 10)\<close>: leading white space is skipped, one sign is read, then the longest
  run of decimal digits; no digit gives \<open>NaN\<close> (\<open>None\<close>). The result is kept as the exact
  integer. JavaScript rounds a value above \<open>2^53\<close> to the nearest double, which is still
  above \<open>2^53\<close>, so the comparisons with zero and the minimum with the page size come out
  the same; only a \<open>$skip\<close> of more than fifteen digits is stored rounded by JavaScript
  and exact here.
\<close>

fun digitsValue :: "int \<Rightarrow> jsstring \<Rightarrow> int" where
  "digitsValue acc [] = acc"
| "digitsValue acc (c # cs) = digitsValue (10 * acc + (int c - 48)) cs"

definition parseInt10 :: "jsstring \<Rightarrow> int option" where
  "parseInt10 s =
     (let t = dropWhile isWhiteSpace s;
          sign = (case t of c # r \<Rightarrow> if c = 45 then - 1 else 1 | [] \<Rightarrow> (1::int));
          u = (case t of c # r \<Rightarrow> if c = 45 \<or> c = 43 then r else t | [] \<Rightarrow> []);
          z = takeWhile isDigit u
      in if z = [] then None else Some (sign * digitsValue 0 z))"

definition truthy :: "jsstring option \<Rightarrow> bool" where
  \<comment> \<open>\<open>if (s)\<close> for \<open>s: string | undefined\<close>: \<open>undefined\<close> and the empty string are falsy\<close>
  "truthy p = (case p of None \<Rightarrow> False | Some s \<Rightarrow> s \<noteq> [])"

definition asciiLower :: "nat \<Rightarrow> nat" where
  "asciiLower c = (if isUpper c then c + 32 else c)"

definition lowerCaseIs :: "jsstring option \<Rightarrow> jsstring \<Rightarrow> bool" where
  \<comment> \<open>\<open>count?.toLowerCase() === lit\<close> for the literals \<open>'true'\<close> and \<open>'false'\<close>: no code
      unit outside ASCII has one of their letters as its lower case\<close>
  "lowerCaseIs p lit = (case p of None \<Rightarrow> False | Some s \<Rightarrow> map asciiLower s = lit)"

definition parseTop :: "jsstring option \<Rightarrow> int option" where
  \<comment> \<open>the \<open>$top\<close> block of \<open>parseODataQuery\<close>; \<open>None\<close> leaves \<open>options.top\<close> undefined\<close>
  "parseTop t =
     (case t of
        None \<Rightarrow> Some DEFAULT_PAGE_SIZE
      | Some s \<Rightarrow>
          if s \<noteq> [] then
            (case parseInt10 s of
               None \<Rightarrow> None
             | Some parsed \<Rightarrow> if parsed > 0 then Some (min parsed MAX_PAGE_SIZE) else None)
          else Some DEFAULT_PAGE_SIZE)"

definition parseSkip :: "jsstring option \<Rightarrow> int option" where
  \<comment> \<open>the \<open>$skip\<close> block of \<open>parseODataQuery\<close>\<close>
  "parseSkip t =
     (case t of
        None \<Rightarrow> None
      | Some s \<Rightarrow>
          if s \<noteq> [] then
            (case parseInt10 s of
               None \<Rightarrow> None
             | Some parsed \<Rightarrow> if parsed \<ge> 0 then Some parsed else None)
          else None)"

definition splitTrim :: "jsstring option \<Rightarrow> jsstring list option" where
  \<comment> \<open>\<open>if (p) options.x = p.split(',').map((s) => s.trim())\<close>\<close>
  "splitTrim p = (case p of None \<Rightarrow> None
                  | Some s \<Rightarrow> if s \<noteq> [] then Some (map trim (splitOn 44 s)) else None)"

definition passThrough :: "jsstring option \<Rightarrow> jsstring option" where
  \<comment> \<open>\<open>if (p) options.x = p\<close>\<close>
  "passThrough p = (if truthy p then p else None)"

definition parseODataQuery :: "query \<Rightarrow> js_error + ODataQueryOptions" where
  "parseODataQuery q =
     (case validateQueryLimits q of
        Some validationError \<Rightarrow> Inl (Error validationError)
      | None \<Rightarrow>
          Inr \<lparr>select = splitTrim (getQueryParam q (utf16 ''$select'')),
               filter_opt = passThrough (getQueryParam q (utf16 ''$filter'')),
               top_opt = parseTop (getQueryParam q (utf16 ''$top'')),
               skip = parseSkip (getQueryParam q (utf16 ''$skip'')),
               orderby = passThrough (getQueryParam q (utf16 ''$orderby'')),
               count =
                 (if lowerCaseIs (getQueryParam q (utf16 ''$count'')) (utf16 ''true'') then Some True
                  else if lowerCaseIs (getQueryParam q (utf16 ''$count'')) (utf16 ''false'')
                  then Some False
                  else Some True),
               expand = splitTrim (getQueryParam q (utf16 ''$expand'')),
               skiptoken = passThrough (getQueryParam q (utf16 ''$skiptoken''))\<rparr>)"

section \<open>config.ts\<close>

record Config =
  salesCloudBaseUrl :: jsstring
  scUsername :: jsstring
  scPassword :: jsstring
  scRequestTimeoutMs :: nat
  proxyUsername :: jsstring
  proxyPassword :: jsstring
  allowedOrigin :: jsstring
  skiptokenSecret :: jsstring
  port :: nat
  nodeEnv :: jsstring
  publicUrl :: "jsstring option"

section \<open>salescloud/client.ts: building the upstream URL\<close>

text \<open>
  \<open>ScQueryParams\<close>: the fields \<open>$select\<close>, \<open>$filter\<close>, \<open>$top\<close>, \<open>$skip\<close>, \<open>$orderby\<close>,
  \<open>$count\<close> and \<open>$expand\<close>, all optional, with \<open>p_\<close> for the dollar sign. The number
  type is a parameter, and so is \<open>String(n)\<close> on it.
\<close>

record 'n ScQueryParams =
  p_select :: "jsstring option"
  p_filter :: "jsstring option"
  p_top :: "'n option"
  p_skip :: "'n option"
  p_orderby :: "jsstring option"
  p_count :: "bool option"
  p_expand :: "jsstring option"

text \<open>
  A \<open>URL\<close> object: what precedes the query (scheme, authority, path), the list of
  name-value pairs behind \<open>url.searchParams\<close>, and the fragment. The platform's parser
  \<open>new URL(s)\<close>, which throws a \<open>TypeError\<close> on an invalid URL, and its serialiser
  \<open>url.toString()\<close> are parameters of \<open>buildUrl\<close>.
\<close>

record URL =
  locator :: jsstring
  searchParams :: "(jsstring \<times> jsstring) list"
  fragment :: jsstring

fun searchParams_set :: "jsstring \<Rightarrow> jsstring \<Rightarrow> (jsstring \<times> jsstring) list \<Rightarrow> (jsstring \<times> jsstring) list" where
  \<comment> \<open>\<open>URLSearchParams.set\<close>: the first pair of that name takes the value and the other
      pairs of that name are removed; without such a pair, one is appended\<close>
  "searchParams_set name v [] = [(name, v)]"
| "searchParams_set name v ((k, w) # ps) =
     (if k = name then (name, v) # filter (\<lambda>kv. fst kv \<noteq> name) ps
      else (k, w) # searchParams_set name v ps)"

definition setParam :: "jsstring \<Rightarrow> jsstring \<Rightarrow> URL \<Rightarrow> URL" where
  "setParam name v url = url\<lparr>searchParams := searchParams_set name v (searchParams url)\<rparr>"

definition setIfTruthy :: "jsstring \<Rightarrow> jsstring option \<Rightarrow> URL \<Rightarrow> URL" where
  \<comment> \<open>\<open>if (params.x) url.searchParams.set(name, params.x)\<close>\<close>
  "setIfTruthy name p url = (case p of None \<Rightarrow> url
                              | Some v \<Rightarrow> if v \<noteq> [] then setParam name v url else url)"

definition setIfDefined :: "('n \<Rightarrow> jsstring) \<Rightarrow> jsstring \<Rightarrow> 'n option \<Rightarrow> URL \<Rightarrow> URL" where
  \<comment> \<open>\<open>if (params.x !== undefined) url.searchParams.set(name, String(params.x))\<close>\<close>
  "setIfDefined String name p url = (case p of None \<Rightarrow> url | Some n \<Rightarrow> setParam name (String n) url)"

definition setSearchParams :: "('n \<Rightarrow> jsstring) \<Rightarrow> 'n ScQueryParams \<Rightarrow> URL \<Rightarrow> URL" where
  \<comment> \<open>the calls of \<open>url.searchParams.set\<close> in \<open>buildUrl\<close>, in the order of the source\<close>
  "setSearchParams String params url0 =
     (let url1 = setIfTruthy (utf16 ''$select'') (p_select params) url0;
          url2 = setIfTruthy (utf16 ''$filter'') (p_filter params) url1;
          url3 = setIfDefined String (utf16 ''$top'') (p_top params) url2;
          url4 = setIfDefined String (utf16 ''$skip'') (p_skip params) url3;
          url5 = setIfTruthy (utf16 ''$orderby'') (p_orderby params) url4;
          url6 = setIfTruthy (utf16 ''$expand'') (p_expand params) url5
      in setParam (utf16 ''$count'') (utf16 ''true'') url6)"

definition buildUrl ::
  "(jsstring \<Rightarrow> js_error + URL) \<Rightarrow> (URL \<Rightarrow> jsstring) \<Rightarrow> ('n \<Rightarrow> jsstring) \<Rightarrow>
   Config \<Rightarrow> jsstring \<Rightarrow> 'n ScQueryParams \<Rightarrow> js_error + jsstring" where
  "buildUrl newURL toString String config endpoint params =
     (case newURL (salesCloudBaseUrl config @ endpoint) of
        Inl e \<Rightarrow> Inl e
      | Inr url \<Rightarrow> Inr (toString (setSearchParams String params url)))"

section \<open>salescloud/client.ts: fetching with retries\<close>

text \<open>
  One attempt is one call of \<open>fetch\<close> and what follows it inside the \<open>try\<close> block. The
  upstream decides its outcome: \<open>fetch\<close> rejects (a \<open>TypeError\<close> for a network failure,
  an \<open>AbortError\<close> when the timeout aborts the request), or it resolves with a response
  that has a status and a body. Reading the body can reject too. A body read by
  \<open>response.json()\<close> is a value, or the JSON literal \<open>null\<close>: the attempt then reads
  \<open>rawResponse.count\<close> for its log line, and reading a property of \<open>null\<close> throws a
  \<open>TypeError\<close>.
\<close>

datatype 'a json_result = JsonValue 'a | JsonNull | JsonThrows js_error

datatype text_result = TextRead | TextThrows js_error

datatype 'a attempt = Rejected js_error | Responded nat "'a json_result" text_result

datatype 'a step = Return 'a | Throw js_error | Retry nat

definition response_ok :: "nat \<Rightarrow> bool" where
  \<comment> \<open>\<open>response.ok\<close>\<close>
  "response_ok status \<longleftrightarrow> 200 \<le> status \<and> status \<le> 299"

definition backoffMs :: "nat \<Rightarrow> nat" where
  \<comment> \<open>\<open>Math.pow(2, retryCount) * SC_RETRY_BASE_DELAY_MS\<close>\<close>
  "backoffMs retryCount = 2 ^ retryCount * SC_RETRY_BASE_DELAY_MS"

definition tryBlock :: "nat \<Rightarrow> 'a attempt \<Rightarrow> 'a step" where
  \<comment> \<open>the \<open>try\<close> block up to the point where it returns, throws, or has slept and is about
      to call \<open>fetchWithRetry\<close> again (\<open>Retry\<close> with the time slept)\<close>
  "tryBlock retryCount a =
     (case a of
        Rejected e \<Rightarrow> Throw e
      | Responded status js tx \<Rightarrow>
          if \<not> response_ok status then
            if status \<ge> 500 \<and> retryCount < SC_MAX_RETRIES then Retry (backoffMs retryCount)
            else (case tx of
                    TextThrows e \<Rightarrow> Throw e
                  | TextRead \<Rightarrow> Throw (ApiError status))
          else
            (case js of
               JsonThrows e \<Rightarrow> Throw e
             | JsonNull \<Rightarrow> Throw TypeError
             | JsonValue d \<Rightarrow> Return d))"

definition catchBlock :: "Config \<Rightarrow> nat \<Rightarrow> js_error \<Rightarrow> 'a step" where
  "catchBlock config retryCount e =
     (if e = AbortError then Throw (RequestTimeout (scRequestTimeoutMs config))
      else if retryCount < SC_MAX_RETRIES \<and> e = TypeError then Retry (backoffMs retryCount)
      else Throw e)"

definition attemptStep :: "Config \<Rightarrow> nat \<Rightarrow> 'a attempt \<Rightarrow> 'a step" where
  \<comment> \<open>a value thrown inside \<open>try\<close> goes through \<open>catch\<close>; the promise of the recursive call
      is returned without \<open>await\<close>, so its rejection does not\<close>
  "attemptStep config retryCount a =
     (case tryBlock retryCount a of
        Throw e \<Rightarrow> catchBlock config retryCount e
      | Return d \<Rightarrow> Return d
      | Retry ms \<Rightarrow> Retry ms)"

text \<open>
  A run of \<open>fetchWithRetry\<close>: what the promise settles to, how many times \<open>fetch\<close> was
  called, and the arguments of the calls of \<open>sleep\<close> in order. \<open>upstream k\<close> is the
  outcome of the attempt made with \<open>retryCount = k\<close>.
\<close>

record 'a fetch_run =
  outcome :: "js_error + 'a"
  fetches :: nat
  sleeps :: "nat list"

definition afterSleep :: "nat \<Rightarrow> 'a fetch_run \<Rightarrow> 'a fetch_run" where
  \<comment> \<open>\<open>await sleep(ms); return this.fetchWithRetry(url, retryCount + 1)\<close>\<close>
  "afterSleep ms r = \<lparr>outcome = outcome r, fetches = 1 + fetches r, sleeps = ms # sleeps r\<rparr>"

function fetchWithRetry :: "Config \<Rightarrow> (nat \<Rightarrow> 'a attempt) \<Rightarrow> nat \<Rightarrow> 'a fetch_run" where
  "fetchWithRetry config upstream retryCount =
     (case attemptStep config retryCount (upstream retryCount) of
        Return d \<Rightarrow> \<lparr>outcome = Inr d, fetches = 1, sleeps = []\<rparr>
      | Throw e \<Rightarrow> \<lparr>outcome = Inl e, fetches = 1, sleeps = []\<rparr>
      | Retry ms \<Rightarrow> afterSleep ms (fetchWithRetry config upstream (retryCount + 1)))"
  by pat_completeness auto
termination
  by (relation "measure (\<lambda>(config, upstream, retryCount). SC_MAX_RETRIES - retryCount)")
     (auto simp: attemptStep_def tryBlock_def catchBlock_def
        split: attempt.splits json_result.splits text_result.splits if_splits step.splits)

declare fetchWithRetry.simps [simp del]

section \<open>salescloud/types.ts: entity definitions\<close>

text \<open>
  \<open>EntityDefinition\<close>, with the fields that name the entity and its keys. Its property
  lists, field mappings and flags are not read by any function below.
\<close>

record EntityDefinition =
  name :: jsstring
  setName :: jsstring
  endpoint :: jsstring
  keyProperty :: jsstring
  scKeyProperty :: jsstring

section \<open>odata/keyset-pagination.ts\<close>

text \<open>
  \<open>SkiptokenPayload\<close> (\<open>lastKey\<close>, \<open>filter\<close>, \<open>orderby\<close>) and \<open>PaginationStrategy\<close> (\<open>useSkip\<close>,
  \<open>skipValue\<close>, \<open>keysetFilter\<close>, \<open>error\<close>) as the source declares them; the fields of the
  first carry the prefix \<open>token\<close> and the last field of the second is \<open>strategyError\<close>.
\<close>

record SkiptokenPayload =
  tokenLastKey :: jsstring
  tokenFilter :: "jsstring option"
  tokenOrderby :: "jsstring option"

record PaginationStrategy =
  useSkip :: bool
  skipValue :: "int option"
  keysetFilter :: "jsstring option"
  strategyError :: "jsstring option"




section \<open>odata/collection-cache.ts\<close>

text \<open>
  The result of \<open>getCachedCollection\<close> is declared as \<open>{ data, totalCount } | null\<close>. Its body
  and the body of \<open>waitForCollectionCache\<close> are the same single \<open>throw\<close>; the second is an
  \<open>async\<close> function, so the throw rejects the promise it returns, and the left summand is
  that rejection.
\<close>

record 'r collection_page =
  pageData :: "'r list"
  pageTotalCount :: int



section \<open>odata/pagination-cache.ts\<close>

text \<open>
  The module declares the types of a boundary store and no store; the result of
  \<open>lookupPageBoundary\<close> is declared as \<open>{ lastKey, actualPosition } | null\<close>, and its body is
  the same single \<open>throw\<close>.
\<close>

record found_boundary =
  foundKey :: jsstring
  actualPosition :: int


section \<open>Example inputs\<close>

definition exampleConfig :: Config where
  "exampleConfig =
     \<lparr>salesCloudBaseUrl = utf16 ''https://sc.example'', scUsername = utf16 ''u'',
      scPassword = utf16 ''p'', scRequestTimeoutMs = 300000, proxyUsername = utf16 ''s'',
      proxyPassword = utf16 ''q'', allowedOrigin = utf16 ''https://sac.example'',
      skiptokenSecret = utf16 ''k'', port = 3000, nodeEnv = utf16 ''test'', publicUrl = None\<rparr>"

text \<open>
  A stand-in for the platform's URL parser and serialiser: the parsed URL already carries
  \<open>$count=false\<close>, and the serialiser writes each pair after an ampersand.
\<close>

definition exampleNewURL :: "jsstring \<Rightarrow> js_error + URL" where
  "exampleNewURL s =
     Inr \<lparr>locator = s, searchParams = [(utf16 ''$count'', utf16 ''false'')], fragment = []\<rparr>"

definition exampleToString :: "URL \<Rightarrow> jsstring" where
  "exampleToString u =
     locator u @ concat (map (\<lambda>kv. utf16 ''&'' @ fst kv @ utf16 ''='' @ snd kv) (searchParams u))"




section \<open>Filter values reach a keyset condition only sanitised\<close>

lemma matchLiteralAt_prefix: "matchLiteralAt p s \<longleftrightarrow> prefix p s"
  by (induction p s rule: matchLiteralAt.induct) auto

lemma regex_test_Literal: "regex_test (Literal p) s \<longleftrightarrow> sublist p s"
  by (induction s) (auto simp: matchLiteralAt_prefix sublist_Cons_right)

lemma matchHexEscapeAt_iff:
  "matchHexEscapeAt s \<longleftrightarrow>
     (\<exists>x h1 h2. (x = 120 \<or> x = 88) \<and> isHexDigit h1 \<and> isHexDigit h2 \<and> prefix [92, x, h1, h2] s)"
  by (cases s rule: matchHexEscapeAt.cases) (auto simp: prefix_Cons)

lemma regex_test_HexEscape:
  "regex_test HexEscape s \<longleftrightarrow>
     (\<exists>x h1 h2. (x = 120 \<or> x = 88) \<and> isHexDigit h1 \<and> isHexDigit h2 \<and> sublist [92, x, h1, h2] s)"
proof (induction s)
  case Nil
  show ?case by simp
next
  case (Cons c cs)
  show ?case
    unfolding regex_test.simps matchAt.simps Cons.IH matchHexEscapeAt_iff sublist_Cons_right
    by blast
qed

lemma matchFieldNameRest_iff: "matchFieldNameRest cs \<longleftrightarrow> (\<forall>c\<in>set cs. isFieldNamePart c)"
  by (induction cs) auto

lemma fieldNamePattern_test_iff:
  "fieldNamePattern_test f \<longleftrightarrow>
     f \<noteq> [] \<and> isFieldNameStart (hd f) \<and> (\<forall>c\<in>set (tl f). isFieldNamePart c)"
  by (cases f) (auto simp: matchFieldNameRest_iff)

lemma escapeQuotes_concat:
  "escapeQuotes v = concat (map (\<lambda>c. if c = 39 then [39, 39] else [c]) v)"
  by (induction v) auto

lemma sublist_single: "sublist [c] v \<longleftrightarrow> c \<in> set v"
  by (induction v) (auto simp: sublist_Cons_right)

lemma isDangerousFreeString_iff:
  "isDangerousFreeString v \<longleftrightarrow>
     \<not> sublist (utf16 '';'') v \<and> \<not> sublist (utf16 ''--'') v \<and>
     \<not> sublist (utf16 ''/*'') v \<and> \<not> sublist (utf16 ''*/'') v \<and> 0 \<notin> set v \<and>
     \<not> (\<exists>x h1 h2. (x = 120 \<or> x = 88) \<and> isHexDigit h1 \<and> isHexDigit h2 \<and>
            sublist [92, x, h1, h2] v)"
  unfolding isDangerousFreeString_def DANGEROUS_FILTER_PATTERNS_def noPatternMatches.simps
    regex_test_Literal regex_test_HexEscape sublist_single
  by simp

text \<open>
  C10. For every field name matching \<open>^[a-zA-Z_][a-zA-Z0-9_]*$\<close> and every value of at most
  100 code units that contains none of \<open>;\<close>, \<open>--\<close>, \<open>/*\<close>, \<open>*/\<close>, a null code unit or a hex
  escape (a backslash, \<open>x\<close> in either case, two hexadecimal digits),
  \<open>buildKeysetCondition\<close> returns exactly the field name, a space, the operator, a space
  and the value between single quotes with every single quote of the value doubled. For
  every other field name or value it throws.
\<close>

theorem buildKeysetCondition_sanitises:
  "((fieldName \<noteq> [] \<and> isFieldNameStart (hd fieldName) \<and>
       (\<forall>c\<in>set (tl fieldName). isFieldNamePart c)) \<and>
     (length v \<le> 100 \<and>
       \<not> sublist (utf16 '';'') v \<and> \<not> sublist (utf16 ''--'') v \<and>
       \<not> sublist (utf16 ''/*'') v \<and> \<not> sublist (utf16 ''*/'') v \<and> 0 \<notin> set v \<and>
       \<not> (\<exists>x h1 h2. (x = 120 \<or> x = 88) \<and> isHexDigit h1 \<and> isHexDigit h2 \<and>
              sublist [92, x, h1, h2] v))
     \<longrightarrow> buildKeysetCondition fieldName operator v =
           Inr (fieldName @ utf16 '' '' @ operator_text operator @ utf16 '' '' @ [39] @
                concat (map (\<lambda>c. if c = 39 then [39, 39] else [c]) v) @ [39])) \<and>
   (\<not> ((fieldName \<noteq> [] \<and> isFieldNameStart (hd fieldName) \<and>
       (\<forall>c\<in>set (tl fieldName). isFieldNamePart c)) \<and>
     (length v \<le> 100 \<and>
       \<not> sublist (utf16 '';'') v \<and> \<not> sublist (utf16 ''--'') v \<and>
       \<not> sublist (utf16 ''/*'') v \<and> \<not> sublist (utf16 ''*/'') v \<and> 0 \<notin> set v \<and>
       \<not> (\<exists>x h1 h2. (x = 120 \<or> x = 88) \<and> isHexDigit h1 \<and> isHexDigit h2 \<and>
              sublist [92, x, h1, h2] v)))
     \<longrightarrow> (\<exists>e. buildKeysetCondition fieldName operator v = Inl e))"
  by (auto simp: buildKeysetCondition_def sanitizeFilterValue_def fieldNamePattern_test_iff
      isDangerousFreeString_iff escapeQuotes_concat Let_def)

lemma dangerousFree_example: "isDangerousFreeString [79, 39, 66]"
  by (simp add: isDangerousFreeString_def DANGEROUS_FILTER_PATTERNS_def utf16_def)

theorem buildKeysetCondition_sanitises_witness:
  "buildKeysetCondition (utf16 ''id'') Gt [79, 39, 66] = Inr (utf16 ''id gt '' @ [39, 79, 39, 39, 66, 39]) \<and>
   (\<exists>e. buildKeysetCondition (utf16 ''id'') Gt (utf16 ''a;b'') = Inl e) \<and>
   (\<exists>e. buildKeysetCondition (utf16 ''1d'') Gt (utf16 ''ab'') = Inl e)"
proof -
  have name_ok: "utf16 ''id'' \<noteq> [] \<and> isFieldNameStart (hd (utf16 ''id'')) \<and>
       (\<forall>c\<in>set (tl (utf16 ''id'')). isFieldNamePart c)"
    by (simp add: utf16_def isFieldNameStart_def isFieldNamePart_def isLower_def)
  have value_ok: "length [79, 39, 66::nat] \<le> 100 \<and>
       \<not> sublist (utf16 '';'') [79, 39, 66] \<and> \<not> sublist (utf16 ''--'') [79, 39, 66] \<and>
       \<not> sublist (utf16 ''/*'') [79, 39, 66] \<and> \<not> sublist (utf16 ''*/'') [79, 39, 66] \<and> 0 \<notin> set [79, 39, 66::nat] \<and>
       \<not> (\<exists>x h1 h2. (x = 120 \<or> x = 88) \<and> isHexDigit h1 \<and> isHexDigit h2 \<and>
              sublist [92, x, h1, h2] [79, 39, 66])"
    using dangerousFree_example unfolding isDangerousFreeString_iff by simp
  have value_bad: "sublist (utf16 '';'') (utf16 ''a;b'')"
    by (simp add: utf16_def sublist_Cons_right)
  have name_bad: "\<not> isFieldNameStart (hd (utf16 ''1d''))"
    by (simp add: utf16_def isFieldNameStart_def isLower_def isUpper_def)
  show ?thesis
    using buildKeysetCondition_sanitises [of "utf16 ''id''" "[79, 39, 66]" Gt]
      buildKeysetCondition_sanitises [of "utf16 ''id''" "utf16 ''a;b''" Gt]
      buildKeysetCondition_sanitises [of "utf16 ''1d''" "utf16 ''ab''" Gt]
      name_ok value_ok value_bad name_bad
    by (simp add: utf16_def)
qed

section \<open>The page size read from \<open>$top\<close>\<close>

lemma parseInt10_Nil: "parseInt10 [] = None"
  by (simp add: parseInt10_def)

lemma parseInt10_digits:
  assumes "ds \<noteq> []" and "\<forall>c\<in>set ds. isDigit c"
  shows "parseInt10 ds = Some (digitsValue 0 ds)"
proof -
  from assms obtain c cs where ds: "ds = c # cs" and c: "isDigit c"
    by (cases ds) auto
  from c have "\<not> isWhiteSpace c" "c \<noteq> 45" "c \<noteq> 43"
    by (auto simp: isDigit_def isWhiteSpace_def)
  moreover from assms(2) have "takeWhile isDigit ds = ds"
    by (simp add: takeWhile_eq_all_conv)
  ultimately show ?thesis
    using assms(1) by (simp add: parseInt10_def ds)
qed

lemma parseTop_le: "parseTop t = Some n \<Longrightarrow> n \<le> 999"
  by (auto simp: parseTop_def DEFAULT_PAGE_SIZE_def MAX_PAGE_SIZE_def SC_MAX_PAGE_SIZE_def
      split: option.splits if_splits)

lemma parseTop_positive:
  "parseInt10 s = Some n \<Longrightarrow> 0 < n \<Longrightarrow> parseTop (Some s) = Some (min n 999)"
  by (auto simp: parseTop_def MAX_PAGE_SIZE_def SC_MAX_PAGE_SIZE_def parseInt10_Nil)

lemma parseTop_absent: "parseTop None = Some 999"
  by (simp add: parseTop_def DEFAULT_PAGE_SIZE_def SC_MAX_PAGE_SIZE_def)

lemma parseTop_empty: "parseTop (Some []) = Some 999"
  by (simp add: parseTop_def DEFAULT_PAGE_SIZE_def SC_MAX_PAGE_SIZE_def)

lemma parseTop_unparsed:
  "s \<noteq> [] \<Longrightarrow> \<forall>n. parseInt10 s = Some n \<longrightarrow> n \<le> 0 \<Longrightarrow> parseTop (Some s) = None"
  by (auto simp: parseTop_def split: option.splits)

lemma parseODataQuery_top:
  "parseODataQuery q = Inr options \<Longrightarrow> top_opt options = parseTop (getQueryParam q (utf16 ''$top''))"
  by (auto simp: parseODataQuery_def split: option.splits)

lemma getQueryParam_absent: "q key = None \<Longrightarrow> getQueryParam q key = None"
  by (simp add: getQueryParam_def)

text \<open>
  C6. For every raw query object that \<open>parseODataQuery\<close> accepts, the returned
  \<open>options.top\<close> never exceeds 999: when \<open>$top\<close> parses to a positive integer \<open>n\<close> the
  result is \<open>min n 999\<close>, and when \<open>$top\<close> is absent the result is the default page size
  999.
\<close>

theorem parseODataQuery_top_capped:
  assumes "parseODataQuery q = Inr options"
  shows "(\<forall>n. top_opt options = Some n \<longrightarrow> n \<le> 999) \<and>
         (\<forall>s n. getQueryParam q (utf16 ''$top'') = Some s \<and> parseInt10 s = Some n \<and> 0 < n
                  \<longrightarrow> top_opt options = Some (min n 999)) \<and>
         (q (utf16 ''$top'') = None \<longrightarrow> top_opt options = Some 999)"
  using assms
  by (auto simp: parseODataQuery_top parseTop_positive parseTop_absent getQueryParam_absent
      dest: parseTop_le)

lemma top_key_distinct:
  "utf16 ''$top'' \<noteq> utf16 ''$filter''" "utf16 ''$top'' \<noteq> utf16 ''$select''"
  "utf16 ''$top'' \<noteq> utf16 ''$orderby''" "utf16 ''$top'' \<noteq> utf16 ''$skiptoken''"
  "utf16 ''$top'' \<noteq> utf16 ''$skip''" "utf16 ''$top'' \<noteq> utf16 ''$count''"
  "utf16 ''$top'' \<noteq> utf16 ''$expand''"
  by (simp_all add: utf16_def)

lemma only_top_accepted:
  "parseODataQuery (Map.empty(utf16 ''$top'' \<mapsto> Str s)) =
     Inr \<lparr>select = None, filter_opt = None, top_opt = parseTop (Some s), skip = None,
          orderby = None, count = Some True, expand = None, skiptoken = None\<rparr>"
  using top_key_distinct
  by (simp add: parseODataQuery_def validateQueryLimits_def getQueryParam_def tooLong_def
      splitTrim_def passThrough_def truthy_def parseSkip_def lowerCaseIs_def)

lemma parseInt10_1500: "parseInt10 (utf16 ''1500'') = Some 1500"
  by (simp add: parseInt10_def utf16_def isWhiteSpace_def isDigit_def)

lemma parseInt10_42: "parseInt10 (utf16 ''42'') = Some 42"
  by (simp add: parseInt10_def utf16_def isWhiteSpace_def isDigit_def)

lemma parseInt10_0: "parseInt10 (utf16 ''0'') = Some 0"
  by (simp add: parseInt10_def utf16_def isWhiteSpace_def isDigit_def)

lemma parseInt10_minus5: "parseInt10 (utf16 ''-5'') = Some (- 5)"
  by (simp add: parseInt10_def utf16_def isWhiteSpace_def isDigit_def)

lemma parseInt10_abc: "parseInt10 (utf16 ''abc'') = None"
  by (simp add: parseInt10_def utf16_def isWhiteSpace_def isDigit_def)

theorem parseODataQuery_top_capped_witness:
  "(\<exists>options. parseODataQuery (Map.empty(utf16 ''$top'' \<mapsto> Str (utf16 ''1500''))) = Inr options \<and>
      top_opt options = Some 999) \<and>
   (\<exists>options. parseODataQuery (Map.empty(utf16 ''$top'' \<mapsto> Str (utf16 ''42''))) = Inr options \<and>
      top_opt options = Some 42) \<and>
   (\<exists>options. parseODataQuery Map.empty = Inr options \<and> top_opt options = Some 999)"
proof -
  let ?big = "Map.empty(utf16 ''$top'' \<mapsto> Str (utf16 ''1500''))"
  let ?small = "Map.empty(utf16 ''$top'' \<mapsto> Str (utf16 ''42''))"
  obtain o1 where o1: "parseODataQuery ?big = Inr o1" using only_top_accepted by blast
  obtain o2 where o2: "parseODataQuery ?small = Inr o2" using only_top_accepted by blast
  obtain o3 where o3: "parseODataQuery Map.empty = Inr o3"
    by (simp add: parseODataQuery_def validateQueryLimits_def getQueryParam_def tooLong_def)
  have "top_opt o1 = Some 999"
    using parseODataQuery_top_capped [OF o1] parseInt10_1500 by (simp add: getQueryParam_def)
  moreover have "top_opt o2 = Some 42"
    using parseODataQuery_top_capped [OF o2] parseInt10_42 by (simp add: getQueryParam_def)
  moreover have "top_opt o3 = Some 999"
    using parseODataQuery_top_capped [OF o3] by simp
  ultimately show ?thesis using o1 o2 o3 by blast
qed

text \<open>
  C9 as stated fails where \<open>$top\<close> is present with the empty string as its value: the
  empty string is falsy, so the parser takes the branch of an absent \<open>$top\<close> and applies
  the default.
\<close>

theorem top_present_but_empty_counterexample:
  "(Map.empty(utf16 ''$top'' \<mapsto> Str [])) (utf16 ''$top'') = Some (Str []) \<and>
   parseInt10 [] = None \<and>
   parseODataQuery (Map.empty(utf16 ''$top'' \<mapsto> Str [])) =
     Inr \<lparr>select = None, filter_opt = None, top_opt = Some 999, skip = None,
          orderby = None, count = Some True, expand = None, skiptoken = None\<rparr>"
  by (simp add: only_top_accepted parseTop_empty parseInt10_Nil)

text \<open>
  C9, amended. For every accepted query object whose \<open>$top\<close> value (the first element
  when it is an array) is a non-empty string that does not parse to a positive integer,
  such as \<open>0\<close>, \<open>-5\<close> or \<open>abc\<close>, \<open>parseODataQuery\<close> leaves \<open>options.top\<close> undefined:
  neither the default page size nor the cap is applied. When \<open>$top\<close> is absent, an empty
  array or the empty string, the default page size 999 is applied.
\<close>

theorem parseODataQuery_top_unparsed:
  assumes "parseODataQuery q = Inr options"
  shows "(\<forall>s. getQueryParam q (utf16 ''$top'') = Some s \<and> s \<noteq> [] \<and>
              (\<forall>n. parseInt10 s = Some n \<longrightarrow> n \<le> 0)
              \<longrightarrow> top_opt options = None) \<and>
         (getQueryParam q (utf16 ''$top'') = None \<or> getQueryParam q (utf16 ''$top'') = Some []
              \<longrightarrow> top_opt options = Some 999)"
  using assms
  by (auto simp: parseODataQuery_top parseTop_unparsed parseTop_absent parseTop_empty)

theorem parseODataQuery_top_unparsed_witness:
  "(\<exists>options. parseODataQuery (Map.empty(utf16 ''$top'' \<mapsto> Str (utf16 ''0''))) = Inr options \<and>
      top_opt options = None) \<and>
   (\<exists>options. parseODataQuery (Map.empty(utf16 ''$top'' \<mapsto> Str (utf16 ''-5''))) = Inr options \<and>
      top_opt options = None) \<and>
   (\<exists>options. parseODataQuery (Map.empty(utf16 ''$top'' \<mapsto> Str (utf16 ''abc''))) = Inr options \<and>
      top_opt options = None) \<and>
   (\<exists>options. parseODataQuery (Map.empty(utf16 ''$top'' \<mapsto> Arr [])) = Inr options \<and>
      top_opt options = Some 999)"
proof -
  let ?zero = "Map.empty(utf16 ''$top'' \<mapsto> Str (utf16 ''0''))"
  let ?neg = "Map.empty(utf16 ''$top'' \<mapsto> Str (utf16 ''-5''))"
  let ?abc = "Map.empty(utf16 ''$top'' \<mapsto> Str (utf16 ''abc''))"
  let ?arr = "Map.empty(utf16 ''$top'' \<mapsto> Arr [])"
  obtain o1 where o1: "parseODataQuery ?zero = Inr o1" using only_top_accepted by blast
  obtain o2 where o2: "parseODataQuery ?neg = Inr o2" using only_top_accepted by blast
  obtain o3 where o3: "parseODataQuery ?abc = Inr o3" using only_top_accepted by blast
  obtain o4 where o4: "parseODataQuery ?arr = Inr o4"
    using top_key_distinct
    by (simp add: parseODataQuery_def validateQueryLimits_def getQueryParam_def tooLong_def)
  have ne: "utf16 ''0'' \<noteq> []" "utf16 ''-5'' \<noteq> []" "utf16 ''abc'' \<noteq> []"
    by (simp_all add: utf16_def)
  have "top_opt o1 = None"
    using parseODataQuery_top_unparsed [OF o1] parseInt10_0 ne by (simp add: getQueryParam_def)
  moreover have "top_opt o2 = None"
    using parseODataQuery_top_unparsed [OF o2] parseInt10_minus5 ne by (simp add: getQueryParam_def)
  moreover have "top_opt o3 = None"
    using parseODataQuery_top_unparsed [OF o3] parseInt10_abc ne by (simp add: getQueryParam_def)
  moreover have "top_opt o4 = Some 999"
    using parseODataQuery_top_unparsed [OF o4] by (simp add: getQueryParam_def)
  ultimately show ?thesis using o1 o2 o3 o4 by blast
qed

section \<open>Every upstream URL asks for the count\<close>

lemma filter_named_removed: "filter (\<lambda>kv. fst kv = k) (filter (\<lambda>kv. fst kv \<noteq> k) ps) = []"
  by (induction ps) auto

lemma searchParams_set_named:
  "map snd (filter (\<lambda>kv. fst kv = k) (searchParams_set k v ps)) = [v]"
  by (induction k v ps rule: searchParams_set.induct) (simp_all add: filter_named_removed)

lemma searchParams_setParam:
  "map snd (filter (\<lambda>kv. fst kv = k) (searchParams (setParam k v url))) = [v]"
  by (simp add: setParam_def searchParams_set_named)
text \<open>
  C7. For every endpoint and every combination of query parameters, also when the caller
  gives no \<open>$count\<close> or \<open>$count=false\<close>, the URL that \<open>buildUrl\<close> builds carries the
  query parameter \<open>$count=true\<close>: whenever the platform parses the base URL and endpoint,
  the result is the serialisation of the URL after the calls of \<open>searchParams.set\<close>, and
  the search parameters of that URL hold exactly one pair named \<open>$count\<close>, with the value
  \<open>true\<close>.
\<close>

theorem buildUrl_requests_count:
  assumes "newURL (salesCloudBaseUrl config @ path) = Inr url0"
  shows "buildUrl newURL toString String config path params =
           Inr (toString (setSearchParams String params url0)) \<and>
         map snd (filter (\<lambda>kv. fst kv = utf16 ''$count'')
                    (searchParams (setSearchParams String params url0))) = [utf16 ''true'']"
  using assms by (simp add: buildUrl_def setSearchParams_def Let_def searchParams_setParam)

lemma setSearchParams_example:
  "setSearchParams (\<lambda>n::nat. replicate n 49)
     \<lparr>p_select = None, p_filter = Some (utf16 ''a''), p_top = Some 2, p_skip = None,
      p_orderby = None, p_count = Some False, p_expand = None\<rparr>
     \<lparr>locator = utf16 ''https://sc.example/accounts'',
      searchParams = [(utf16 ''$count'', utf16 ''false'')], fragment = []\<rparr> =
     \<lparr>locator = utf16 ''https://sc.example/accounts'',
      searchParams = [(utf16 ''$count'', utf16 ''true''), (utf16 ''$filter'', utf16 ''a''),
                      (utf16 ''$top'', utf16 ''11'')],
      fragment = []\<rparr>"
  by (simp add: setSearchParams_def setIfTruthy_def setIfDefined_def setParam_def utf16_def
      numeral_2_eq_2)

theorem buildUrl_requests_count_witness:
  "buildUrl exampleNewURL exampleToString (\<lambda>n::nat. replicate n 49) exampleConfig
     (utf16 ''/accounts'')
     \<lparr>p_select = None, p_filter = Some (utf16 ''a''), p_top = Some 2, p_skip = None,
      p_orderby = None, p_count = Some False, p_expand = None\<rparr> =
     Inr (exampleToString
            \<lparr>locator = utf16 ''https://sc.example/accounts'',
             searchParams = [(utf16 ''$count'', utf16 ''true''), (utf16 ''$filter'', utf16 ''a''),
                             (utf16 ''$top'', utf16 ''11'')],
             fragment = []\<rparr>) \<and>
   map snd (filter (\<lambda>kv. fst kv = utf16 ''$count'')
     [(utf16 ''$count'', utf16 ''true''), (utf16 ''$filter'', utf16 ''a''),
      (utf16 ''$top'', utf16 ''11'')]) = [utf16 ''true'']"
proof -
  have parsed: "exampleNewURL (salesCloudBaseUrl exampleConfig @ utf16 ''/accounts'') =
      Inr \<lparr>locator = utf16 ''https://sc.example/accounts'',
           searchParams = [(utf16 ''$count'', utf16 ''false'')], fragment = []\<rparr>"
    by (simp add: exampleNewURL_def exampleConfig_def utf16_def)
  show ?thesis
    using buildUrl_requests_count [of exampleNewURL exampleConfig "utf16 ''/accounts''" _
        exampleToString "\<lambda>n::nat. replicate n 49"
        "\<lparr>p_select = None, p_filter = Some (utf16 ''a''), p_top = Some 2, p_skip = None,
          p_orderby = None, p_count = Some False, p_expand = None\<rparr>", OF parsed]
    by (simp only: setSearchParams_example URL.simps)
qed

section \<open>Fetching with retries\<close>

lemma attemptStep_Retry_bound:
  "attemptStep config retryCount a = Retry ms \<Longrightarrow> retryCount < SC_MAX_RETRIES"
  by (auto simp: attemptStep_def tryBlock_def catchBlock_def
      split: attempt.splits json_result.splits text_result.splits if_splits step.splits)

lemma attemptStep_Retry_backoff:
  "attemptStep config retryCount a = Retry ms \<Longrightarrow> ms = 2 ^ retryCount * 500"
  by (auto simp: attemptStep_def tryBlock_def catchBlock_def backoffMs_def SC_RETRY_BASE_DELAY_MS_def
      split: attempt.splits json_result.splits text_result.splits if_splits step.splits)

lemma fetches_bound:
  "fetches (fetchWithRetry config upstream retryCount) \<le> SC_MAX_RETRIES + 1 - retryCount
   \<or> (SC_MAX_RETRIES \<le> retryCount \<and> fetches (fetchWithRetry config upstream retryCount) = 1)"
proof (induction config upstream retryCount rule: fetchWithRetry.induct)
  case (1 config upstream retryCount)
  show ?case
  proof (cases "attemptStep config retryCount (upstream retryCount)")
    case (Retry ms)
    then have lt: "retryCount < SC_MAX_RETRIES" by (rule attemptStep_Retry_bound)
    from "1.IH"[OF Retry] lt Retry show ?thesis
      by (subst fetchWithRetry.simps) (auto simp: afterSleep_def)
  next
    case (Return d)
    then show ?thesis by (subst (1 2) fetchWithRetry.simps) (simp, linarith)
  next
    case (Throw e)
    then show ?thesis by (subst (1 2) fetchWithRetry.simps) (simp, linarith)
  qed
qed

lemma fetchWithRetry_at_most_three_fetches:
  "fetches (fetchWithRetry config upstream 0) \<le> 3"
  using fetches_bound [of config upstream 0] by (simp add: SC_MAX_RETRIES_def)

lemma attemptStep_Retry_cause:
  assumes "attemptStep config retryCount a = Retry ms"
  shows "(\<exists>status js tx. a = Responded status js tx \<and> 500 \<le> status) \<or>
         a = Rejected TypeError \<or>
         (\<exists>status tx. a = Responded status (JsonThrows TypeError) tx \<and> response_ok status) \<or>
         (\<exists>status js. a = Responded status js (TextThrows TypeError) \<and> \<not> response_ok status) \<or>
         (\<exists>status tx. a = Responded status JsonNull tx \<and> response_ok status)"
  using assms
  by (auto simp: attemptStep_def tryBlock_def catchBlock_def
      split: attempt.splits json_result.splits text_result.splits if_splits step.splits)

text \<open>
  C8. The claim: \<open>fetchWithRetry\<close> makes at most three attempts, retries only on HTTP 5xx
  responses and on network failures, sleeps \<open>2^retryCount \<times> 500\<close> ms before each retry,
  and otherwise surfaces an error. The bound, the backoff and the causes of a retry are
  the lemmas above; the last cause is neither a 5xx response nor a network failure. At an
  upstream that answers every attempt with status 200 and the JSON body \<open>null\<close>, the
  attempt reads \<open>rawResponse.count\<close>, which throws a \<open>TypeError\<close>, and the \<open>catch\<close> block
  retries every \<open>TypeError\<close>: the run makes three fetches, sleeps 500 ms and 1000 ms, and
  rejects with the \<open>TypeError\<close>.
\<close>

theorem fetchWithRetry_retries_null_body:
  "fetchWithRetry config (\<lambda>k. Responded 200 JsonNull TextRead) 0 =
     \<lparr>outcome = Inl TypeError, fetches = 3, sleeps = [500, 1000]\<rparr>"
  by (simp add: fetchWithRetry.simps [of _ _ 0] fetchWithRetry.simps [of _ _ "Suc 0"]
      fetchWithRetry.simps [of _ _ "Suc (Suc 0)"] afterSleep_def attemptStep_def tryBlock_def
      catchBlock_def response_ok_def backoffMs_def SC_MAX_RETRIES_def SC_RETRY_BASE_DELAY_MS_def)

section \<open>The pagination modules\<close>






end
